theory Spec2Isabelle
  imports Main "HOL-Library.AList"
begin

section \<open>The plugin controller (PluginController.ts)\<close>

text \<open>
  A shallow embedding of the class \<^verbatim>\<open>PluginController\<close>. The controller's fields
  are a record that every method takes and returns. The collaborators handed to the
  constructor (the permission functions, the worker controller, \<^verbatim>\<open>fetch\<close>) are a
  record of functions, \<open>env\<close>. The controller's trace \<open>events\<close> lists what it does
  that is visible outside it: the calls to collaborators that act on the outside world,
  the updates of its two stores, and the changes of its registry of RPC hooks.

  A promise is modelled by its settled outcome, \<open>Inl\<close> for a rejection and \<open>Inr\<close>
  for a resolution, and an \<^verbatim>\<open>await\<close> reads the outcome. An \<^verbatim>\<open>async\<close> method that is
  awaited runs to its end where it is called. \<^verbatim>\<open>_startPluginInWorker\<close>, which two
  callers call without \<^verbatim>\<open>await\<close>, then runs up to its first \<^verbatim>\<open>await\<close> where it is
  called and the rest after its caller has returned. Methods that could overlap in time
  run one after the other, so the trace gives one of the possible orders of their
  calls. Console output is not modelled.
\<close>

subsection \<open>JavaScript values and objects\<close>

text \<open>
  Plugin objects are read reflectively by the code (\<^verbatim>\<open>Object.keys\<close>, spread,
  \<^verbatim>\<open>delete\<close>), so an object is the association list of its own enumerable
  properties, from names to values, in insertion order. (JavaScript lists keys that are
  array indices first; no statement below depends on the order of keys.) Numbers and
  arrays do not occur in the controller's own data and are left out.
\<close>

datatype jsval =
    JUndefined
  | JNull
  | JBool bool
  | JStr string
  | JObj "(string \<times> jsval) list"

type_synonym obj = "(string \<times> jsval) list"

text \<open>
  The properties that every plain object inherits from \<^verbatim>\<open>Object.prototype\<close>: eleven
  functions and the accessor \<^verbatim>\<open>__proto__\<close>, whose getter returns the prototype.
\<close>

definition Object_prototype_properties :: "string list" where
  "Object_prototype_properties =
     [''constructor'', ''__defineGetter__'', ''__defineSetter__'', ''hasOwnProperty'',
      ''__lookupGetter__'', ''__lookupSetter__'', ''isPrototypeOf'', ''propertyIsEnumerable'',
      ''toString'', ''valueOf'', ''__proto__'', ''toLocaleString'']"

text \<open>
  What \<^verbatim>\<open>o[k]\<close> finds on a plain object \<open>o\<close>: an own property, or else the member of
  \<^verbatim>\<open>Object.prototype\<close> of that name, or else nothing (\<^verbatim>\<open>undefined\<close>). An inherited
  member is a function, or for \<^verbatim>\<open>__proto__\<close> the prototype object: it is truthy, it
  has no enumerable own property, and none of the properties that the controller reads
  from a plugin is defined on it.
\<close>

datatype 'a found = Own 'a | Inherited string | Absent

definition lookup :: "(string \<times> 'a) list \<Rightarrow> string \<Rightarrow> 'a found" where
  "lookup ob k =
     (case map_of ob k of
        Some v \<Rightarrow> Own v
      | None \<Rightarrow> if k \<in> set Object_prototype_properties then Inherited k else Absent)"

text \<open>
  \<^verbatim>\<open>o[k]\<close> where \<open>k\<close> is an own key of \<open>o\<close> or a name that \<^verbatim>\<open>Object.prototype\<close> does
  not define (the controller reads \<^verbatim>\<open>name\<close>, \<^verbatim>\<open>sourceCode\<close>, \<^verbatim>\<open>isActive\<close>,
  \<^verbatim>\<open>initialPermissions\<close> and the properties of the manifest this way): \<^verbatim>\<open>undefined\<close>
  for a missing property.
\<close>

definition property :: "obj \<Rightarrow> string \<Rightarrow> jsval" where
  "property ob k = (case map_of ob k of None \<Rightarrow> JUndefined | Some v \<Rightarrow> v)"

text \<open>
  \<^verbatim>\<open>o[k] = v\<close> on a plain object. The name \<^verbatim>\<open>__proto__\<close> is an accessor of
  \<^verbatim>\<open>Object.prototype\<close>: unless \<open>o\<close> has an own property of that name, the assignment
  calls its setter, which adds no property to \<open>o\<close> (it makes an object \<open>v\<close> the
  prototype of \<open>o\<close>; the controller reads nothing from the objects it builds by
  assignment). Every other name becomes or stays an own property.
\<close>

definition assign :: "string \<Rightarrow> 'a \<Rightarrow> (string \<times> 'a) list \<Rightarrow> (string \<times> 'a) list" where
  "assign k v ob =
     (if k = ''__proto__'' \<and> map_of ob k = None then ob else AList.update k v ob)"

text \<open>
  \<^verbatim>\<open>{ ...a, ...b }\<close>: the properties of \<open>a\<close>, overwritten or extended by those of \<open>b\<close>.
  An object literal defines own properties, also for a computed key \<^verbatim>\<open>[k]: v\<close> with
  the name \<^verbatim>\<open>__proto__\<close>; \<open>AList.update\<close> is that definition of one property.
\<close>

definition spread :: "(string \<times> 'v) list \<Rightarrow> (string \<times> 'v) list \<Rightarrow> (string \<times> 'v) list" where
  "spread a b = foldl (\<lambda>acc (k, v). AList.update k v acc) a b"

text \<open>
  \<^verbatim>\<open>{ ...x }\<close> for what a lookup found: the properties of an own object, and nothing
  for \<^verbatim>\<open>undefined\<close> or for an inherited member.
\<close>

fun spread_found :: "(string \<times> 'v) list found \<Rightarrow> (string \<times> 'v) list" where
  "spread_found (Own a) = a"
| "spread_found (Inherited m) = []"
| "spread_found Absent = []"

text \<open>The truthiness of a value, as \<^verbatim>\<open>if (v)\<close>, \<^verbatim>\<open>!v\<close> and \<^verbatim>\<open>v?.p\<close> test it.\<close>

fun truthy :: "jsval \<Rightarrow> bool" where
  "truthy JUndefined = False"
| "truthy JNull = False"
| "truthy (JBool b) = b"
| "truthy (JStr s) = (s \<noteq> [])"
| "truthy (JObj ob) = True"

text \<open>
  The property key that a value used as a key is turned into. An object gives the
  result of the inherited \<^verbatim>\<open>toString\<close>; an object that defines \<^verbatim>\<open>toString\<close> or
  \<^verbatim>\<open>valueOf\<close> itself is outside the model.
\<close>

fun ToPropertyKey :: "jsval \<Rightarrow> string" where
  "ToPropertyKey (JStr s) = s"
| "ToPropertyKey JUndefined = ''undefined''"
| "ToPropertyKey JNull = ''null''"
| "ToPropertyKey (JBool b) = (if b then ''true'' else ''false'')"
| "ToPropertyKey (JObj ob) = ''[object Object]''"

datatype error =
    Error string
  | TypeError string
  | ProviderUnauthorized string

fun message :: "error \<Rightarrow> string" where
  "message (Error m) = m"
| "message (TypeError m) = m"
| "message (ProviderUnauthorized m) = m"

text \<open>
  \<^verbatim>\<open>v.k\<close> on any value, for the names the controller reads from a manifest: reading a
  property of \<^verbatim>\<open>undefined\<close> or \<^verbatim>\<open>null\<close> throws a TypeError, a boolean or a string has
  none of these properties. The message of a TypeError is the engine's; the texts here
  stand for it.
\<close>

fun member_of :: "jsval \<Rightarrow> string \<Rightarrow> error + jsval" where
  "member_of JUndefined k = Inl (TypeError (''Cannot read property '' @ k @ '' of undefined''))"
| "member_of JNull k = Inl (TypeError (''Cannot read property '' @ k @ '' of null''))"
| "member_of (JObj ob) k = Inr (property ob k)"
| "member_of (JBool b) k = Inr JUndefined"
| "member_of (JStr s) k = Inr JUndefined"

text \<open>
  \<^verbatim>\<open>Object.keys(v).length\<close>: \<^verbatim>\<open>Object.keys\<close> throws on \<^verbatim>\<open>undefined\<close> and \<^verbatim>\<open>null\<close>,
  lists the properties of an object and the indices of a string, and is empty for a
  boolean.
\<close>

fun Object_keys_length :: "jsval \<Rightarrow> error + nat" where
  "Object_keys_length JUndefined = Inl (TypeError ''Cannot convert undefined or null to object'')"
| "Object_keys_length JNull = Inl (TypeError ''Cannot convert undefined or null to object'')"
| "Object_keys_length (JObj ob) = Inr (length ob)"
| "Object_keys_length (JStr s) = Inr (length s)"
| "Object_keys_length (JBool b) = Inr 0"

subsection \<open>Constants and state\<close>

definition PLUGIN_PREFIX :: string where
  "PLUGIN_PREFIX = ''wallet_plugin_''"

definition SERIALIZABLE_PLUGIN_PROPERTIES :: "string list" where
  "SERIALIZABLE_PLUGIN_PROPERTIES = [''initialPermissions'', ''name'', ''permissionName'']"

text \<open>\<^verbatim>\<open>PluginControllerState\<close>, the content of \<^verbatim>\<open>store\<close>.\<close>

record PluginControllerState =
  plugins :: "(string \<times> obj) list"
  pluginStates :: obj

text \<open>\<^verbatim>\<open>PluginControllerMemState\<close>, the content of \<^verbatim>\<open>memStore\<close>.\<close>

record PluginControllerMemState =
  inlinePluginIsRunning :: bool
  mem_plugins :: "(string \<times> obj) list"
  mem_pluginStates :: obj

text \<open>\<^verbatim>\<open>Partial<...>\<close> of either state: a property is present (\<open>Some\<close>) or not.\<close>

record PartialState =
  new_plugins :: "(string \<times> obj) list option"
  new_pluginStates :: "obj option"

record PartialMemState =
  new_inlinePluginIsRunning :: "bool option"
  new_mem_plugins :: "(string \<times> obj) list option"
  new_mem_pluginStates :: "obj option"

text \<open>
  The entries of the trace. A plugin name in them is the value the code passes: the
  methods that start and remove plugins are also called with the \<^verbatim>\<open>name\<close> property of
  a stored plugin, which need not be a string.
\<close>

datatype event =
    Fetch jsval
  | RequestPermissions string jsval
  | CreatePluginWorker jsval
  | SetRpcHook jsval string
  | StartPlugin string jsval jsval
  | DeleteRpcHook jsval
  | CloseAllConnections jsval
  | TerminateWorkerOf jsval
  | RemoveAllPermissionsFor "jsval list"
  | StoreUpdated
  | MemStoreUpdated

text \<open>
  The controller's fields. The two maps are \<^verbatim>\<open>Map\<close> objects, keyed by the values
  they are given. An RPC hook is the closure of \<^verbatim>\<open>_createPluginHooks\<close>: it is
  determined by the worker id it forwards to. A promise in \<^verbatim>\<open>_pluginsBeingAdded\<close> is
  its outcome.
\<close>

record PluginController =
  store :: PluginControllerState
  memStore :: PluginControllerMemState
  pluginRpcHooks :: "(jsval \<times> string) list"
  pluginsBeingAdded :: "(string \<times> (error + obj)) list"
  events :: "event list"

text \<open>What \<^verbatim>\<open>fetch\<close> resolves to: \<^verbatim>\<open>json()\<close> and \<^verbatim>\<open>text()\<close> of the response.\<close>

record response =
  response_json :: "error + jsval"
  response_text :: "error + string"

record capability =
  parentCapability :: string

text \<open>
  The collaborators: \<^verbatim>\<open>fetch\<close>, the permission functions given to the constructor,
  and the worker controller's \<^verbatim>\<open>createPluginWorker\<close> (by host name, resolving to a
  worker id) and \<^verbatim>\<open>startPlugin\<close> (worker id, plugin name, source code).
\<close>

record env =
  fetch :: "jsval \<Rightarrow> error + response"
  requestPermissions :: "string \<Rightarrow> jsval \<Rightarrow> error + capability list"
  hasPermission :: "string \<Rightarrow> string \<Rightarrow> bool"
  createPluginWorker :: "jsval \<Rightarrow> error + string"
  startPlugin :: "string \<Rightarrow> jsval \<Rightarrow> jsval \<Rightarrow> error + unit"

definition emit :: "event \<Rightarrow> PluginController \<Rightarrow> PluginController" where
  "emit ev c = c\<lparr>events := events c @ [ev]\<rparr>"

subsection \<open>State store and projection\<close>

text \<open>
  \<^verbatim>\<open>ObservableStore.updateState\<close> (of the library obs-store): a shallow merge of the
  partial state into the current one.
\<close>

definition store_updateState :: "PluginControllerState \<Rightarrow> PartialState \<Rightarrow> PluginControllerState" where
  "store_updateState st p =
     \<lparr>plugins = (case new_plugins p of None \<Rightarrow> plugins st | Some ps \<Rightarrow> ps),
      pluginStates = (case new_pluginStates p of None \<Rightarrow> pluginStates st | Some pss \<Rightarrow> pss)\<rparr>"

definition memStore_updateState ::
  "PluginControllerMemState \<Rightarrow> PartialMemState \<Rightarrow> PluginControllerMemState" where
  "memStore_updateState st p =
     \<lparr>inlinePluginIsRunning =
        (case new_inlinePluginIsRunning p of None \<Rightarrow> inlinePluginIsRunning st | Some b \<Rightarrow> b),
      mem_plugins = (case new_mem_plugins p of None \<Rightarrow> mem_plugins st | Some ps \<Rightarrow> ps),
      mem_pluginStates =
        (case new_mem_pluginStates p of None \<Rightarrow> mem_pluginStates st | Some pss \<Rightarrow> pss)\<rparr>"

text \<open>
  \<^verbatim>\<open>_filterMemStoreState\<close>: the result always has \<^verbatim>\<open>plugins\<close>; for every key of
  \<^verbatim>\<open>newState.plugins\<close>, a copy of the plugin with \<^verbatim>\<open>sourceCode\<close> deleted is assigned
  to \<^verbatim>\<open>memState.plugins[name]\<close>.
\<close>

definition filterMemStoreState :: "PartialState \<Rightarrow> PartialMemState" where
  "filterMemStoreState newState =
     \<lparr>new_inlinePluginIsRunning = None,
      new_mem_plugins = Some
        (case new_plugins newState of
           None \<Rightarrow> []
         | Some ps \<Rightarrow>
             foldl (\<lambda>mem name.
                      assign name (AList.delete ''sourceCode'' (spread_found (lookup ps name))) mem)
                   [] (map fst ps)),
      new_mem_pluginStates = new_pluginStates newState\<rparr>"

definition updateState :: "PluginController \<Rightarrow> PartialState \<Rightarrow> PluginController" where
  "updateState c newState =
     emit MemStoreUpdated
       ((emit StoreUpdated (c\<lparr>store := store_updateState (store c) newState\<rparr>))
          \<lparr>memStore := memStore_updateState (memStore c) (filterMemStoreState newState)\<rparr>)"

text \<open>\<^verbatim>\<open>get\<close>: what \<^verbatim>\<open>plugins[pluginName]\<close> finds on the stored object.\<close>

definition get :: "PluginController \<Rightarrow> string \<Rightarrow> obj found" where
  "get c pluginName = lookup (plugins (store c)) pluginName"

text \<open>
  \<^verbatim>\<open>getSerializable\<close>: \<open>None\<close> is \<^verbatim>\<open>null\<close>. Whatever \<^verbatim>\<open>get\<close> finds is truthy. For a
  stored plugin the reduction assigns the properties whose key is in the set; for an
  inherited member it runs over no keys and returns the empty object.
\<close>

definition getSerializable :: "PluginController \<Rightarrow> string \<Rightarrow> obj option" where
  "getSerializable c pluginName =
     (case get c pluginName of
        Absent \<Rightarrow> None
      | Inherited m \<Rightarrow> Some []
      | Own plugin \<Rightarrow>
          Some (foldl (\<lambda>serialized key.
                         if key \<in> set SERIALIZABLE_PLUGIN_PROPERTIES
                         then assign key (property plugin key) serialized
                         else serialized)
                      [] (map fst plugin)))"

subsection \<open>RPC hooks and activation\<close>

text \<open>
  The public \<^verbatim>\<open>getRpcMessageHandler\<close> is asked with a string. The private methods
  that set and delete a hook get the name from their callers.
\<close>

definition getRpcMessageHandler :: "PluginController \<Rightarrow> string \<Rightarrow> string option" where
  "getRpcMessageHandler c pluginName = map_of (pluginRpcHooks c) (JStr pluginName)"

definition createPluginHooks :: "PluginController \<Rightarrow> jsval \<Rightarrow> string \<Rightarrow> PluginController" where
  "createPluginHooks c pluginName workerId =
     emit (SetRpcHook pluginName workerId)
       (c\<lparr>pluginRpcHooks := AList.update pluginName workerId (pluginRpcHooks c)\<rparr>)"

definition removePluginHooks :: "PluginController \<Rightarrow> jsval \<Rightarrow> PluginController" where
  "removePluginHooks c pluginName =
     emit (DeleteRpcHook pluginName)
       (c\<lparr>pluginRpcHooks := AList.delete pluginName (pluginRpcHooks c)\<rparr>)"

text \<open>
  \<^verbatim>\<open>_updatePlugin\<close>: the name is used as a property key. What the lookup finds may be
  \<^verbatim>\<open>undefined\<close> or an inherited member; the spread then yields an object with the one
  property. The new objects are object literals.
\<close>

definition updatePlugin :: "PluginController \<Rightarrow> jsval \<Rightarrow> string \<Rightarrow> jsval \<Rightarrow> PluginController" where
  "updatePlugin c pluginName prop_name val =
     (let plugins0 = plugins (store c);
          plugin = lookup plugins0 (ToPropertyKey pluginName);
          newPlugin = AList.update prop_name val (spread_found plugin);
          newPlugins = AList.update (ToPropertyKey pluginName) newPlugin plugins0
      in updateState c \<lparr>new_plugins = Some newPlugins, new_pluginStates = None\<rparr>)"

definition setPluginToActive :: "PluginController \<Rightarrow> jsval \<Rightarrow> PluginController" where
  "setPluginToActive c pluginName = updatePlugin c pluginName ''isActive'' (JBool True)"

text \<open>
  \<^verbatim>\<open>_startPluginInWorker\<close> (async), in two parts. The first part is what runs where
  the method is called, up to its first \<^verbatim>\<open>await\<close>: the call of \<^verbatim>\<open>createPluginWorker\<close>.
  The second part is the rest: with the worker id, the hook is registered, then the
  start command is sent, and after it has succeeded the plugin is set active.
\<close>

definition startPluginInWorker_called :: "PluginController \<Rightarrow> jsval \<Rightarrow> PluginController" where
  "startPluginInWorker_called c pluginName = emit (CreatePluginWorker pluginName) c"

definition startPluginInWorker_resumed ::
  "env \<Rightarrow> PluginController \<Rightarrow> jsval \<Rightarrow> jsval \<Rightarrow> PluginController \<times> (error + unit)" where
  "startPluginInWorker_resumed e c pluginName sourceCode =
     (case createPluginWorker e pluginName of
        Inl err \<Rightarrow> (c, Inl err)
      | Inr workerId \<Rightarrow>
          (let c2 = createPluginHooks c pluginName workerId;
               c3 = emit (StartPlugin workerId pluginName sourceCode) c2
           in case startPlugin e workerId pluginName sourceCode of
                Inl err \<Rightarrow> (c3, Inl err)
              | Inr u \<Rightarrow> (setPluginToActive c3 pluginName, Inr ())))"

text \<open>The method when it is awaited: both parts, one after the other.\<close>

definition startPluginInWorker ::
  "env \<Rightarrow> PluginController \<Rightarrow> jsval \<Rightarrow> jsval \<Rightarrow> PluginController \<times> (error + unit)" where
  "startPluginInWorker e c pluginName sourceCode =
     startPluginInWorker_resumed e (startPluginInWorker_called c pluginName) pluginName sourceCode"

subsection \<open>Removal\<close>

text \<open>
  \<^verbatim>\<open>removePlugins\<close>. The argument is a list, so the \<^verbatim>\<open>Array.isArray\<close> guard
  passes. The loop body acts on the controller and on the two copies
  \<^verbatim>\<open>newPlugins\<close> and \<^verbatim>\<open>newPluginStates\<close>, where \<^verbatim>\<open>delete\<close> removes an own property.
\<close>

definition removePlugins_each ::
  "PluginController \<times> (string \<times> obj) list \<times> obj \<Rightarrow> jsval
     \<Rightarrow> PluginController \<times> (string \<times> obj) list \<times> obj" where
  "removePlugins_each = (\<lambda>(c, newPlugins, newPluginStates) name.
     (emit (TerminateWorkerOf name) (emit (CloseAllConnections name) (removePluginHooks c name)),
      AList.delete (ToPropertyKey name) newPlugins,
      AList.delete (ToPropertyKey name) newPluginStates))"

definition removePlugins :: "PluginController \<Rightarrow> jsval list \<Rightarrow> PluginController" where
  "removePlugins c pluginNames =
     (let state = store c;
          (c1, newPlugins, newPluginStates) =
             foldl removePlugins_each (c, plugins state, pluginStates state) pluginNames;
          c2 = emit (RemoveAllPermissionsFor pluginNames) c1
      in updateState c2 \<lparr>new_plugins = Some newPlugins, new_pluginStates = Some newPluginStates\<rparr>)"

definition removePlugin :: "PluginController \<Rightarrow> jsval \<Rightarrow> PluginController" where
  "removePlugin c pluginName = removePlugins c [pluginName]"

subsection \<open>Add, authorize, start\<close>

text \<open>
  The \<^verbatim>\<open>try\<close> block of \<^verbatim>\<open>_add\<close>: fetch the manifest, destructure
  \<^verbatim>\<open>web3Wallet.bundle\<close> and \<^verbatim>\<open>web3Wallet.initialPermissions\<close>, fetch the bundle and
  build the plugin object. Any failure leaves the block with the error.
\<close>

definition add_try ::
  "env \<Rightarrow> PluginController \<Rightarrow> string \<Rightarrow> string \<Rightarrow> PluginController \<times> (error + obj)" where
  "add_try e c pluginName sourceUrl =
     (let c1 = emit (Fetch (JStr sourceUrl)) c in
      case fetch e (JStr sourceUrl) of
        Inl err \<Rightarrow> (c1, Inl err)
      | Inr pluginSource \<Rightarrow>
     (case response_json pluginSource of
        Inl err \<Rightarrow> (c1, Inl err)
      | Inr pluginJson \<Rightarrow>
     (case member_of pluginJson ''web3Wallet'' of
        Inl err \<Rightarrow> (c1, Inl err)
      | Inr web3Wallet \<Rightarrow>
     (case member_of web3Wallet ''bundle'' of
        Inl err \<Rightarrow> (c1, Inl err)
      | Inr bundle \<Rightarrow>
     (case member_of web3Wallet ''initialPermissions'' of
        Inl err \<Rightarrow> (c1, Inl err)
      | Inr initialPermissions \<Rightarrow>
     (case member_of bundle ''url'' of
        Inl err \<Rightarrow> (c1, Inl err)
      | Inr url \<Rightarrow>
     (let c2 = emit (Fetch url) c1 in
      case fetch e url of
        Inl err \<Rightarrow> (c2, Inl err)
      | Inr pluginBundle \<Rightarrow>
     (case response_text pluginBundle of
        Inl err \<Rightarrow> (c2, Inl err)
      | Inr sourceCode \<Rightarrow>
          (c2, Inr [(''name'', JStr pluginName),
                    (''initialPermissions'', initialPermissions),
                    (''permissionName'', JStr (PLUGIN_PREFIX @ pluginName)),
                    (''sourceCode'', JStr sourceCode),
                    (''isActive'', JBool False)])))))))))"

text \<open>
  \<^verbatim>\<open>_add\<close> (async). \<^verbatim>\<open>sourceUrl || pluginName\<close> takes the name when the URL is
  \<^verbatim>\<open>undefined\<close> or empty. The name is a string, so the guard rejects the empty name.
  Whatever \<^verbatim>\<open>pluginsState[pluginName]\<close> finds is truthy and is spread under the new
  plugin; the new state is an object literal.
\<close>

definition internal_add ::
  "env \<Rightarrow> PluginController \<Rightarrow> string \<Rightarrow> string option \<Rightarrow> PluginController \<times> (error + obj)" where
  "internal_add e c pluginName sourceUrl =
     (let sourceUrl' = (case sourceUrl of None \<Rightarrow> pluginName
                        | Some u \<Rightarrow> if u \<noteq> [] then u else pluginName) in
      if pluginName = [] then (c, Inl (Error (''Invalid plugin name: '' @ pluginName)))
      else
        case add_try e c pluginName sourceUrl' of
          (c1, Inl err) \<Rightarrow>
            (c1, Inl (Error (''Problem loading plugin '' @ pluginName @ '': '' @ message err)))
        | (c1, Inr plugin0) \<Rightarrow>
            (let pluginsState = plugins (store c1);
                 plugin = (case lookup pluginsState pluginName of
                             Absent \<Rightarrow> plugin0
                           | found \<Rightarrow> spread (spread_found found) plugin0)
             in (updateState c1
                   \<lparr>new_plugins = Some (AList.update pluginName plugin pluginsState),
                    new_pluginStates = None\<rparr>,
                 Inr plugin)))"

text \<open>
  \<^verbatim>\<open>add\<close>: the second parameter is only logged. When the map has no promise for the
  name, the promise of \<^verbatim>\<open>_add(pluginName)\<close> is stored; the stored promise is returned.
  \<^verbatim>\<open>_add\<close> neither reads nor writes the map, so it makes no difference to the
  controller that here it has run to its end when its promise is stored.
\<close>

definition add ::
  "env \<Rightarrow> PluginController \<Rightarrow> string \<Rightarrow> string option \<Rightarrow> PluginController \<times> (error + obj)" where
  "add e c pluginName sourceUrl =
     (case map_of (pluginsBeingAdded c) pluginName of
        Some p \<Rightarrow> (c, p)
      | None \<Rightarrow>
          (let (c1, p) = internal_add e c pluginName None
           in (c1\<lparr>pluginsBeingAdded := AList.update pluginName p (pluginsBeingAdded c1)\<rparr>, p)))"

text \<open>
  \<^verbatim>\<open>authorize\<close> (async). Destructuring a missing plugin throws; an inherited member
  has no \<^verbatim>\<open>initialPermissions\<close>; \<^verbatim>\<open>Object.keys\<close> of missing permissions throws. All
  of these, and the return for no requested permissions, come before the \<^verbatim>\<open>try\<close>
  statement. The \<^verbatim>\<open>finally\<close> block runs after the permission request, whatever its
  outcome.
\<close>

definition authorize ::
  "env \<Rightarrow> PluginController \<Rightarrow> string \<Rightarrow> PluginController \<times> (error + string list)" where
  "authorize e c pluginName =
     (case lookup (plugins (store c)) pluginName of
        Absent \<Rightarrow>
          (c, Inl (TypeError ''Cannot destructure property initialPermissions of undefined''))
      | found \<Rightarrow>
          (let initialPermissions =
                 (case found of Own plugin \<Rightarrow> property plugin ''initialPermissions''
                  | _ \<Rightarrow> JUndefined) in
           case Object_keys_length initialPermissions of
             Inl err \<Rightarrow> (c, Inl err)
           | Inr n \<Rightarrow>
               if n = 0 then (c, Inr [])
               else
                 (let c1 = emit (RequestPermissions pluginName initialPermissions) c;
                      r = (case requestPermissions e pluginName initialPermissions of
                             Inl err \<Rightarrow> Inl err
                           | Inr approvedPermissions \<Rightarrow>
                               Inr (map parentCapability approvedPermissions))
                  in (c1\<lparr>pluginsBeingAdded := AList.delete pluginName (pluginsBeingAdded c1)\<rparr>,
                      r))))"

text \<open>
  \<^verbatim>\<open>ProcessPluginReturnType\<close>: the value of \<^verbatim>\<open>getSerializable\<close> under its cast
  (\<open>None\<close> for \<^verbatim>\<open>null\<close>), or an object whose \<^verbatim>\<open>error\<close> is the serialised error
  (\<^verbatim>\<open>serializeError\<close> is a library function, left uninterpreted), or an object whose
  \<^verbatim>\<open>error\<close> is the error itself.
\<close>

datatype ProcessPluginReturnType =
    Serializable "obj option"
  | SerializedError error
  | ErrorObject error

text \<open>The \<^verbatim>\<open>try\<close> block of \<^verbatim>\<open>processRequestedPlugin\<close>.\<close>

definition processRequestedPlugin_try ::
  "env \<Rightarrow> PluginController \<Rightarrow> string \<Rightarrow> PluginController \<times> (error + ProcessPluginReturnType)" where
  "processRequestedPlugin_try e c pluginName =
     (case add e c pluginName None of
        (c1, Inl err) \<Rightarrow> (c1, Inl err)
      | (c1, Inr plugin) \<Rightarrow>
          (let sourceCode = property plugin ''sourceCode'' in
           case authorize e c1 pluginName of
             (c2, Inl err) \<Rightarrow> (c2, Inl err)
           | (c2, Inr approved) \<Rightarrow>
               (case startPluginInWorker e c2 (JStr pluginName) sourceCode of
                  (c3, Inl err) \<Rightarrow> (c3, Inl err)
                | (c3, Inr u) \<Rightarrow> (c3, Inr (Serializable (getSerializable c3 pluginName))))))"

text \<open>
  \<^verbatim>\<open>processRequestedPlugin\<close> (async): \<^verbatim>\<open>plugin?.isActive\<close>, which is \<^verbatim>\<open>undefined\<close>
  for no plugin and for an inherited member, then the guarded block.
\<close>

definition processRequestedPlugin ::
  "env \<Rightarrow> PluginController \<Rightarrow> string \<Rightarrow> PluginController \<times> (error + ProcessPluginReturnType)" where
  "processRequestedPlugin e c pluginName =
     (if (case get c pluginName of
            Own plugin \<Rightarrow> truthy (property plugin ''isActive'')
          | _ \<Rightarrow> False)
      then (c, Inr (Serializable (getSerializable c pluginName)))
      else
        case processRequestedPlugin_try e c pluginName of
          (c1, Inl err) \<Rightarrow> (c1, Inr (SerializedError err))
        | (c1, Inr v) \<Rightarrow> (c1, Inr v))"

subsection \<open>Permission-gated installation\<close>

text \<open>
  \<^verbatim>\<open>{ ...r }\<close> on the value \<^verbatim>\<open>processRequestedPlugin\<close> resolved to: a copy of the
  object, and the empty object for \<^verbatim>\<open>null\<close>.
\<close>

fun spread_return :: "ProcessPluginReturnType \<Rightarrow> ProcessPluginReturnType" where
  "spread_return (Serializable None) = Serializable (Some [])"
| "spread_return r = r"

text \<open>The message of the error for a plugin the origin has no permission for.\<close>

definition not_authorized_message :: "string \<Rightarrow> string" where
  "not_authorized_message pluginName =
     ''Not authorized to install plugin '' @ [CHR 0x27] @ pluginName @ [CHR 0x27]
     @ ''. Request the permission for the plugin before attempting to install it.''"

text \<open>
  The callback that \<^verbatim>\<open>installPlugins\<close> maps over the requested names. It acts on the
  controller and on \<^verbatim>\<open>result\<close>, to which each entry is assigned
  (\<^verbatim>\<open>result[pluginName] = ...\<close>); the third component is the first rejection among
  the callbacks' promises, which is what \<^verbatim>\<open>Promise.all\<close> would reject with. The
  callbacks are run one after the other, in the order of the keys.
\<close>

definition installPlugins_each ::
  "env \<Rightarrow> string
     \<Rightarrow> PluginController \<times> (string \<times> ProcessPluginReturnType) list \<times> error option \<Rightarrow> string
     \<Rightarrow> PluginController \<times> (string \<times> ProcessPluginReturnType) list \<times> error option" where
  "installPlugins_each e origin = (\<lambda>(c, result, rejected) pluginName.
     (let permissionName = PLUGIN_PREFIX @ pluginName in
      if hasPermission e origin permissionName
      then
        (case processRequestedPlugin e c pluginName of
           (c1, Inr r) \<Rightarrow> (c1, assign pluginName (spread_return r) result, rejected)
         | (c1, Inl err) \<Rightarrow>
             (c1, result, (case rejected of None \<Rightarrow> Some err | Some first \<Rightarrow> Some first)))
      else
        (c,
         assign pluginName
           (ErrorObject (ProviderUnauthorized (not_authorized_message pluginName))) result,
         rejected)))"

definition installPlugins ::
  "env \<Rightarrow> PluginController \<Rightarrow> string \<Rightarrow> obj
     \<Rightarrow> PluginController \<times> (error + (string \<times> ProcessPluginReturnType) list)" where
  "installPlugins e c origin requestedPlugins =
     (let (c1, result, rejected) =
            foldl (installPlugins_each e origin) (c, [], None) (map fst requestedPlugins)
      in (c1, (case rejected of None \<Rightarrow> Inr result | Some err \<Rightarrow> Inl err)))"

subsection \<open>Starting plugins outside the installation pipeline\<close>

text \<open>
  A call of an async method that is not awaited: the value of the call is the promise.
  A rejection of that promise is not thrown into the caller, so a \<^verbatim>\<open>try\<close> statement
  around the call sees the call complete normally (\<open>Inr\<close>).
\<close>

definition not_awaited :: "'s \<Rightarrow> error + 's" where
  "not_awaited called = Inr called"

text \<open>
  The callback of \<^verbatim>\<open>runExistingPlugins\<close>: \<^verbatim>\<open>_startPluginInWorker\<close> is called without
  \<^verbatim>\<open>await\<close> inside the \<^verbatim>\<open>try\<close> block, whose handler removes the plugin. The name
  and the source code are the properties of the stored plugin.
\<close>

definition runExistingPlugins_each :: "PluginController \<Rightarrow> obj \<Rightarrow> PluginController" where
  "runExistingPlugins_each c plugin =
     (let pluginName = property plugin ''name'';
          sourceCode = property plugin ''sourceCode''
      in case not_awaited (startPluginInWorker_called c pluginName) of
           Inr c1 \<Rightarrow> c1
         | Inl err \<Rightarrow> removePlugin c pluginName)"

text \<open>
  The rest of a start that the callback has begun; nothing handles a rejection of its
  promise.
\<close>

definition runExistingPlugins_resumed :: "env \<Rightarrow> PluginController \<Rightarrow> obj \<Rightarrow> PluginController" where
  "runExistingPlugins_resumed e c plugin =
     fst (startPluginInWorker_resumed e c (property plugin ''name'') (property plugin ''sourceCode''))"

text \<open>
  \<^verbatim>\<open>runExistingPlugins\<close>: the loop over the values of the stored plugins, and then,
  after the method has returned, the rest of the starts, in the order of their calls.
\<close>

definition runExistingPlugins :: "env \<Rightarrow> PluginController \<Rightarrow> PluginController" where
  "runExistingPlugins e c =
     (let plugins0 = plugins (store c) in
      if length (map fst plugins0) > 0
      then foldl (runExistingPlugins_resumed e)
             (foldl runExistingPlugins_each c (map snd plugins0))
             (map snd plugins0)
      else c)"

text \<open>
  \<^verbatim>\<open>runInlinePlugin\<close>: the source is \<^verbatim>\<open>INLINE_PLUGINS[inlinePluginName]\<close>, a table
  of another module, taken as the argument. The start is not awaited: the flag is
  published after the call of \<^verbatim>\<open>createPluginWorker\<close> and before the rest of the start.
\<close>

definition runInlinePlugin :: "env \<Rightarrow> PluginController \<Rightarrow> jsval \<Rightarrow> PluginController" where
  "runInlinePlugin e c inlinePluginSource =
     (let c1 = startPluginInWorker_called c (JStr ''inlinePlugin'');
          c2 = emit MemStoreUpdated
                 (c1\<lparr>memStore := memStore_updateState (memStore c1)
                       \<lparr>new_inlinePluginIsRunning = Some True,
                        new_mem_plugins = None,
                        new_mem_pluginStates = None\<rparr>\<rparr>)
      in fst (startPluginInWorker_resumed e c2 (JStr ''inlinePlugin'') inlinePluginSource))"

text \<open>
  The constructor: both stores start empty, the initial state is merged over the empty
  one and passed through \<^verbatim>\<open>updateState\<close>.
\<close>

definition constructor :: "PartialState \<Rightarrow> PluginController" where
  "constructor initState =
     updateState
       \<lparr>store = \<lparr>plugins = [], pluginStates = []\<rparr>,
        memStore = \<lparr>inlinePluginIsRunning = False, mem_plugins = [], mem_pluginStates = []\<rparr>,
        pluginRpcHooks = [],
        pluginsBeingAdded = [],
        events = []\<rparr>
       \<lparr>new_plugins = Some (case new_plugins initState of None \<Rightarrow> [] | Some ps \<Rightarrow> ps),
        new_pluginStates = Some (case new_pluginStates initState of None \<Rightarrow> [] | Some pss \<Rightarrow> pss)\<rparr>"

subsection \<open>Example worlds\<close>

text \<open>
  A manifest document with the bundle at \<open>u\<close> and the given initial permissions; a
  world where every manifest URL serves it and \<open>u\<close> serves the text \<open>code\<close>, where
  the origin \<open>dapp\<close> holds the capability of the plugin \<open>foo\<close> only and the origin
  \<open>admin\<close> holds every capability, every permission request is approved, every worker is created, and the start command fails exactly for
  the listed plugin names; the plugin object that \<^verbatim>\<open>_add\<close> builds in such a world when
  no permissions are requested, inactive or activated; and a controller constructed with
  no initial state.
\<close>

definition manifest :: "jsval \<Rightarrow> jsval" where
  "manifest perms =
     JObj [(''web3Wallet'',
            JObj [(''bundle'', JObj [(''url'', JStr ''u'')]), (''initialPermissions'', perms)])]"

definition example_env :: "jsval \<Rightarrow> string list \<Rightarrow> env" where
  "example_env perms failing =
     \<lparr>fetch = (\<lambda>url. if url = JStr ''u''
                     then Inr \<lparr>response_json = Inl (Error ''no json''),
                               response_text = Inr ''code''\<rparr>
                     else Inr \<lparr>response_json = Inr (manifest perms),
                               response_text = Inl (Error ''no text'')\<rparr>),
      requestPermissions = (\<lambda>name ps. Inr [\<lparr>parentCapability = ''eth_accounts''\<rparr>]),
      hasPermission = (\<lambda>origin perm. origin = ''admin''
                         \<or> (origin = ''dapp'' \<and> perm = ''wallet_plugin_foo'')),
      createPluginWorker = (\<lambda>host. Inr (''worker-'' @ ToPropertyKey host)),
      startPlugin = (\<lambda>w name src. if name \<in> JStr ` set failing then Inl (Error ''start failed'')
                                   else Inr ())\<rparr>"

definition stored_plugin :: "string \<Rightarrow> bool \<Rightarrow> obj" where
  "stored_plugin pluginName active =
     [(''name'', JStr pluginName), (''initialPermissions'', JObj []),
      (''permissionName'', JStr (PLUGIN_PREFIX @ pluginName)),
      (''sourceCode'', JStr ''code''), (''isActive'', JBool active)]"

definition fresh :: PluginController where
  "fresh = constructor \<lparr>new_plugins = None, new_pluginStates = None\<rparr>"

section \<open>Properties\<close>

subsection \<open>Lookup and assignment\<close>

lemma lookup_Own_iff: "lookup ob k = Own v \<longleftrightarrow> map_of ob k = Some v"
  by (simp add: lookup_def split: option.splits)

lemma lookup_Absent_iff:
  "lookup ob k = Absent \<longleftrightarrow> map_of ob k = None \<and> k \<notin> set Object_prototype_properties"
  by (simp add: lookup_def split: option.splits)

lemma lookup_update_same: "lookup (AList.update k v ob) k = Own v"
  by (simp add: lookup_def AList.update_conv')

lemma assign_other: "k \<noteq> ''__proto__'' \<Longrightarrow> assign k v ob = AList.update k v ob"
  by (simp add: assign_def)

lemma assign_keeps_no_proto:
  "map_of ob ''__proto__'' = None \<Longrightarrow> map_of (assign k v ob) ''__proto__'' = None"
  by (simp add: assign_def AList.update_conv')

lemma map_of_assign:
  "map_of ob ''__proto__'' = None \<Longrightarrow>
   map_of (assign k v ob) k' = (if k' = k \<and> k \<noteq> ''__proto__'' then Some v else map_of ob k')"
  by (auto simp: assign_def AList.update_conv')

subsection \<open>Serializable views\<close>

lemma serializable_not_proto: "k \<in> set SERIALIZABLE_PLUGIN_PROPERTIES \<Longrightarrow> k \<noteq> ''__proto__''"
  by (auto simp: SERIALIZABLE_PLUGIN_PROPERTIES_def)

lemma serialize_fold_keys:
  "fst ` set (foldl (\<lambda>serialized key.
                 if key \<in> set SERIALIZABLE_PLUGIN_PROPERTIES
                 then assign key (property plugin key) serialized else serialized)
               acc ks)
   = fst ` set acc \<union> (set ks \<inter> set SERIALIZABLE_PLUGIN_PROPERTIES)"
  by (induction ks arbitrary: acc)
     (auto simp: AList.dom_update assign_other serializable_not_proto)

lemma serialize_fold_lookup:
  "map_of (foldl (\<lambda>serialized key.
                 if key \<in> set SERIALIZABLE_PLUGIN_PROPERTIES
                 then assign key (property plugin key) serialized else serialized)
               acc ks) k
   = (if k \<in> set ks \<inter> set SERIALIZABLE_PLUGIN_PROPERTIES then Some (property plugin k)
      else map_of acc k)"
  by (induction ks arbitrary: acc)
     (auto simp: AList.update_conv' assign_other serializable_not_proto)

text \<open>
  For a stored plugin, \<^verbatim>\<open>getSerializable\<close> returns the plugin restricted to the three
  serializable properties, each with its stored value.
\<close>

lemma getSerializable_Own:
  "get c pluginName = Own plugin \<Longrightarrow>
   \<exists>view. getSerializable c pluginName = Some view
      \<and> fst ` set view = fst ` set plugin \<inter> set SERIALIZABLE_PLUGIN_PROPERTIES
      \<and> (\<forall>k. map_of view k = (if k \<in> set SERIALIZABLE_PLUGIN_PROPERTIES then map_of plugin k else None))"
proof -
  assume g: "get c pluginName = Own plugin"
  have absent: "map_of plugin k = None" if "k \<notin> fst ` set plugin" for k
    using that by (simp add: map_of_eq_None_iff)
  have present: "Some (property plugin k) = map_of plugin k" if "k \<in> fst ` set plugin" for k
  proof -
    from that obtain v where "map_of plugin k = Some v"
      by (cases "map_of plugin k") (auto simp: map_of_eq_None_iff)
    then show ?thesis by (simp add: property_def)
  qed
  show ?thesis
    using g absent present
    by (auto simp: getSerializable_def serialize_fold_keys serialize_fold_lookup)
qed

lemma getSerializable_None_iff: "getSerializable c pluginName = None \<longleftrightarrow> get c pluginName = Absent"
  by (simp add: getSerializable_def split: found.splits)

text \<open>
  Claim C1 does not hold of the code, in two ways. After \<^verbatim>\<open>runInlinePlugin\<close> the
  store has a plugin for the id \<open>inlinePlugin\<close> that \<^verbatim>\<open>_updatePlugin\<close> has made of the
  property \<^verbatim>\<open>isActive\<close> alone, and the view of that id has no property at all. And
  for the id \<open>constructor\<close>, for which a newly constructed controller stores nothing,
  \<^verbatim>\<open>get\<close> finds the member that the stored object inherits, and \<^verbatim>\<open>getSerializable\<close>
  returns the empty object instead of \<^verbatim>\<open>null\<close>.
\<close>

theorem getSerializable_not_a_view:
  "get (runInlinePlugin (example_env (JObj []) []) fresh (JStr ''idle'')) ''inlinePlugin''
     = Own [(''isActive'', JBool True)]
   \<and> getSerializable (runInlinePlugin (example_env (JObj []) []) fresh (JStr ''idle''))
        ''inlinePlugin'' = Some []
   \<and> plugins (store fresh) = []
   \<and> get fresh ''constructor'' = Inherited ''constructor''
   \<and> getSerializable fresh ''constructor'' = Some []"
  by code_simp

subsection \<open>The memory projection\<close>

lemma filter_fold_lookup:
  "map_of acc ''__proto__'' = None \<Longrightarrow>
   map_of (foldl (\<lambda>mem name.
                    assign name (AList.delete ''sourceCode'' (spread_found (lookup ps name))) mem)
                 acc ks) k
   = (if k \<in> set ks \<and> k \<noteq> ''__proto__''
      then Some (AList.delete ''sourceCode'' (spread_found (lookup ps k)))
      else map_of acc k)"
proof (induction ks arbitrary: acc)
  case Nil
  show ?case by simp
next
  case (Cons name ks)
  let ?acc = "assign name (AList.delete ''sourceCode'' (spread_found (lookup ps name))) acc"
  have "map_of ?acc ''__proto__'' = None"
    using Cons.prems by (rule assign_keeps_no_proto)
  from Cons.IH [OF this] show ?case
    using Cons.prems by (auto simp: map_of_assign)
qed

lemma mem_plugins_updateState:
  "map_of (mem_plugins (memStore (updateState c newState))) pluginName
   = (case new_plugins newState of
        None \<Rightarrow> None
      | Some ps \<Rightarrow> if pluginName = ''__proto__'' then None
                   else map_option (AList.delete ''sourceCode'') (map_of ps pluginName))"
proof (cases "new_plugins newState")
  case None
  then show ?thesis
    by (simp add: updateState_def emit_def memStore_updateState_def filterMemStoreState_def)
next
  case (Some ps)
  have mem: "map_of (mem_plugins (memStore (updateState c newState))) pluginName
      = (if pluginName \<in> set (map fst ps) \<and> pluginName \<noteq> ''__proto__''
         then Some (AList.delete ''sourceCode'' (spread_found (lookup ps pluginName)))
         else None)"
    using Some
    by (simp add: updateState_def emit_def memStore_updateState_def filterMemStoreState_def
        filter_fold_lookup)
  show ?thesis
  proof (cases "map_of ps pluginName")
    case None
    then have "pluginName \<notin> set (map fst ps)" by (simp add: map_of_eq_None_iff)
    with None Some mem show ?thesis by simp
  next
    case (Some plugin)
    then have "pluginName \<in> set (map fst ps)"
      by (metis map_of_eq_None_iff option.distinct(1) set_map)
    moreover from Some have "lookup ps pluginName = Own plugin"
      by (simp add: lookup_Own_iff)
    ultimately show ?thesis
      using Some \<open>new_plugins newState = Some ps\<close> mem by simp
  qed
qed

text \<open>
  Claim C2, as the code has it. After every \<^verbatim>\<open>updateState\<close>, whatever the state
  before, an entry \<^verbatim>\<open>memStore.plugins[id]\<close> is the plugin of the update with
  \<^verbatim>\<open>sourceCode\<close> deleted: it never has \<^verbatim>\<open>sourceCode\<close>, and it has every other
  property of the plugin with the same value, \<^verbatim>\<open>isActive\<close> included.
\<close>

theorem memStore_plugins_without_sourceCode:
  "\<forall>entry. map_of (mem_plugins (memStore (updateState c newState))) pluginName = Some entry \<longrightarrow>
     (\<exists>ps plugin. new_plugins newState = Some ps \<and> map_of ps pluginName = Some plugin
        \<and> entry = AList.delete ''sourceCode'' plugin
        \<and> ''sourceCode'' \<notin> fst ` set entry
        \<and> (\<forall>k. k \<noteq> ''sourceCode'' \<longrightarrow> map_of entry k = map_of plugin k))"
proof (intro allI impI)
  fix entry
  assume a: "map_of (mem_plugins (memStore (updateState c newState))) pluginName = Some entry"
  then obtain ps where ps: "new_plugins newState = Some ps"
    by (cases "new_plugins newState") (simp_all add: mem_plugins_updateState)
  with a obtain plugin where pl: "map_of ps pluginName = Some plugin"
    and e: "entry = AList.delete ''sourceCode'' plugin"
    by (auto simp: mem_plugins_updateState split: if_splits)
  have "''sourceCode'' \<notin> fst ` set entry"
    unfolding e by (rule AList.delete_notin_dom)
  moreover have "\<forall>k. k \<noteq> ''sourceCode'' \<longrightarrow> map_of entry k = map_of plugin k"
    unfolding e by (simp add: AList.delete_conv')
  ultimately show "\<exists>ps plugin. new_plugins newState = Some ps \<and> map_of ps pluginName = Some plugin
        \<and> entry = AList.delete ''sourceCode'' plugin
        \<and> ''sourceCode'' \<notin> fst ` set entry
        \<and> (\<forall>k. k \<noteq> ''sourceCode'' \<longrightarrow> map_of entry k = map_of plugin k)"
    using ps pl e by blast
qed

theorem memStore_plugins_without_sourceCode_witness:
  "map_of (mem_plugins (memStore (updateState fresh
       \<lparr>new_plugins = Some [(''foo'', [(''name'', JStr ''foo''), (''sourceCode'', JStr ''code'')])],
        new_pluginStates = None\<rparr>))) ''foo''
     = Some [(''name'', JStr ''foo'')]
   \<and> ''sourceCode'' \<notin> fst ` set [(''name'', JStr ''foo'')]"
proof -
  let ?p = "\<lparr>new_plugins = Some [(''foo'', [(''name'', JStr ''foo''), (''sourceCode'', JStr ''code'')])],
            new_pluginStates = None\<rparr>"
  have stored: "map_of (mem_plugins (memStore (updateState fresh ?p))) ''foo''
                  = Some [(''name'', JStr ''foo'')]"
    by code_simp
  note r = memStore_plugins_without_sourceCode [of fresh ?p "''foo''", THEN spec, THEN mp, OF stored]
  then have "''sourceCode'' \<notin> fst ` set [(''name'', JStr ''foo'')]"
    by (elim exE conjE)
  with stored show ?thesis by (intro conjI)
qed

text \<open>
  Claim C2 as the specification states it fails on the plugin that \<^verbatim>\<open>_add\<close> stores:
  its entry in the memory projection has four properties, \<^verbatim>\<open>isActive\<close> among them.
\<close>

theorem memStore_entry_has_isActive:
  "map_of (mem_plugins (memStore
       (fst (internal_add (example_env (JObj []) []) fresh ''foo'' None)))) ''foo''
     = Some [(''name'', JStr ''foo''), (''initialPermissions'', JObj []),
             (''permissionName'', JStr ''wallet_plugin_foo''), (''isActive'', JBool False)]"
  by code_simp

subsection \<open>Removal\<close>

lemma removePlugins_each_fold:
  "foldl removePlugins_each (c, ps, pss) names =
     (c\<lparr>pluginRpcHooks := foldl (\<lambda>hooks n. AList.delete n hooks) (pluginRpcHooks c) names,
        events := events c
          @ concat (map (\<lambda>n. [DeleteRpcHook n, CloseAllConnections n, TerminateWorkerOf n]) names)\<rparr>,
      foldl (\<lambda>al n. AList.delete (ToPropertyKey n) al) ps names,
      foldl (\<lambda>al n. AList.delete (ToPropertyKey n) al) pss names)"
  by (induction names arbitrary: c ps pss)
     (simp_all add: removePlugins_each_def removePluginHooks_def emit_def)

lemma map_of_fold_delete:
  "map_of (foldl (\<lambda>al n. AList.delete (f n) al) al names) k
     = (if k \<in> f ` set names then None else map_of al k)"
  by (induction names arbitrary: al) (auto simp: AList.delete_conv')

lemma removePlugins_unfold:
  "removePlugins c names =
     updateState
       (c\<lparr>pluginRpcHooks := foldl (\<lambda>hooks n. AList.delete n hooks) (pluginRpcHooks c) names,
          events := events c
            @ concat (map (\<lambda>n. [DeleteRpcHook n, CloseAllConnections n, TerminateWorkerOf n]) names)
            @ [RemoveAllPermissionsFor names]\<rparr>)
       \<lparr>new_plugins = Some (foldl (\<lambda>al n. AList.delete (ToPropertyKey n) al) (plugins (store c)) names),
        new_pluginStates =
          Some (foldl (\<lambda>al n. AList.delete (ToPropertyKey n) al) (pluginStates (store c)) names)\<rparr>"
  by (simp add: removePlugins_def removePlugins_each_fold emit_def Let_def)

text \<open>
  What a removal does, for every controller and every batch of names. The stored
  object, the plugin states and the hook registry lose exactly the given names, as own
  properties and keys. The trace grows by the deletion of the hook, the closing of the
  connections and the termination of the worker of each name in turn, then one
  revocation of the permissions of the whole batch, then the update of the two stores:
  the hooks and the connections are gone before the new state is published. For a name
  that \<^verbatim>\<open>Object.prototype\<close> does not define, \<^verbatim>\<open>get\<close> finds nothing afterwards.
\<close>

lemma removePlugins_effect:
  "map_of (plugins (store (removePlugins c names))) k
     = (if k \<in> ToPropertyKey ` set names then None else map_of (plugins (store c)) k)"
  "map_of (pluginStates (store (removePlugins c names))) k
     = (if k \<in> ToPropertyKey ` set names then None else map_of (pluginStates (store c)) k)"
  "map_of (pluginRpcHooks (removePlugins c names)) n
     = (if n \<in> set names then None else map_of (pluginRpcHooks c) n)"
  "events (removePlugins c names) =
     events c
     @ concat (map (\<lambda>n. [DeleteRpcHook n, CloseAllConnections n, TerminateWorkerOf n]) names)
     @ [RemoveAllPermissionsFor names, StoreUpdated, MemStoreUpdated]"
proof -
  show "map_of (plugins (store (removePlugins c names))) k
     = (if k \<in> ToPropertyKey ` set names then None else map_of (plugins (store c)) k)"
    by (simp add: removePlugins_unfold updateState_def emit_def store_updateState_def
        map_of_fold_delete)
  show "map_of (pluginStates (store (removePlugins c names))) k
     = (if k \<in> ToPropertyKey ` set names then None else map_of (pluginStates (store c)) k)"
    by (simp add: removePlugins_unfold updateState_def emit_def store_updateState_def
        map_of_fold_delete)
  show "map_of (pluginRpcHooks (removePlugins c names)) n
     = (if n \<in> set names then None else map_of (pluginRpcHooks c) n)"
    using map_of_fold_delete [of "\<lambda>n. n" "pluginRpcHooks c" names n]
    by (simp add: removePlugins_unfold updateState_def emit_def)
  show "events (removePlugins c names) =
     events c
     @ concat (map (\<lambda>n. [DeleteRpcHook n, CloseAllConnections n, TerminateWorkerOf n]) names)
     @ [RemoveAllPermissionsFor names, StoreUpdated, MemStoreUpdated]"
    by (simp add: removePlugins_unfold updateState_def emit_def)
qed

lemma removePlugin_ordinary_name:
  assumes "pluginName \<notin> set Object_prototype_properties"
  shows "get (removePlugin c (JStr pluginName)) pluginName = Absent"
    and "getRpcMessageHandler (removePlugin c (JStr pluginName)) pluginName = None"
    and "map_of (pluginStates (store (removePlugin c (JStr pluginName)))) pluginName = None"
    and "events (removePlugin c (JStr pluginName)) =
           events c @ [DeleteRpcHook (JStr pluginName), CloseAllConnections (JStr pluginName),
                       TerminateWorkerOf (JStr pluginName),
                       RemoveAllPermissionsFor [JStr pluginName], StoreUpdated, MemStoreUpdated]"
proof -
  show "get (removePlugin c (JStr pluginName)) pluginName = Absent"
    using assms
    by (simp add: get_def lookup_Absent_iff removePlugin_def removePlugins_effect(1))
  show "getRpcMessageHandler (removePlugin c (JStr pluginName)) pluginName = None"
    by (simp add: getRpcMessageHandler_def removePlugin_def removePlugins_effect(3))
  show "map_of (pluginStates (store (removePlugin c (JStr pluginName)))) pluginName = None"
    by (simp add: removePlugin_def removePlugins_effect(2))
  show "events (removePlugin c (JStr pluginName)) =
           events c @ [DeleteRpcHook (JStr pluginName), CloseAllConnections (JStr pluginName),
                       TerminateWorkerOf (JStr pluginName),
                       RemoveAllPermissionsFor [JStr pluginName], StoreUpdated, MemStoreUpdated]"
    by (simp add: removePlugin_def removePlugins_effect(4))
qed

text \<open>
  Claim C9 does not hold of the code for an id that names a member of
  \<^verbatim>\<open>Object.prototype\<close>. The plugin \<open>constructor\<close> is installed and then removed: the
  stored object is empty again and the hook is gone, but \<^verbatim>\<open>get\<close> finds the inherited
  member, and \<^verbatim>\<open>getSerializable\<close> returns the empty object.
\<close>

theorem removePlugin_get_finds_inherited:
  "(let e = example_env (JObj []) [];
        c1 = fst (processRequestedPlugin e fresh ''constructor'');
        c2 = removePlugin c1 (JStr ''constructor'')
    in get c1 ''constructor'' = Own (stored_plugin ''constructor'' True)
       \<and> plugins (store c2) = []
       \<and> getRpcMessageHandler c2 ''constructor'' = None
       \<and> get c2 ''constructor'' = Inherited ''constructor''
       \<and> getSerializable c2 ''constructor'' = Some [])"
  by code_simp

subsection \<open>Adding\<close>

text \<open>
  Claim C8. While \<^verbatim>\<open>_pluginsBeingAdded\<close> has a promise for the id, \<^verbatim>\<open>add(id)\<close>
  returns that promise and leaves the controller as it is: no fetch, no store update.
  A second \<^verbatim>\<open>add\<close> right after a first returns the promise of the first and changes
  nothing.
\<close>

theorem add_deduplicates:
  "(\<forall>p. map_of (pluginsBeingAdded c) pluginName = Some p \<longrightarrow>
        add e c pluginName sourceUrl = (c, p))
   \<and> add e (fst (add e c pluginName sourceUrl)) pluginName sourceUrl'
       = (fst (add e c pluginName sourceUrl), snd (add e c pluginName sourceUrl))"
  by (auto simp: add_def AList.update_conv' split: option.splits prod.splits)

theorem add_deduplicates_witness:
  "add (example_env (JObj []) []) (fst (add (example_env (JObj []) []) fresh ''foo'' None))
       ''foo'' (Some ''elsewhere'')
     = (fst (add (example_env (JObj []) []) fresh ''foo'' None),
        Inr [(''name'', JStr ''foo''), (''initialPermissions'', JObj []),
             (''permissionName'', JStr ''wallet_plugin_foo''),
             (''sourceCode'', JStr ''code''), (''isActive'', JBool False)])"
proof -
  let ?e = "example_env (JObj []) []"
  let ?c = "fst (add ?e fresh ''foo'' None)"
  have marker: "map_of (pluginsBeingAdded ?c) ''foo''
      = Some (Inr [(''name'', JStr ''foo''), (''initialPermissions'', JObj []),
                   (''permissionName'', JStr ''wallet_plugin_foo''),
                   (''sourceCode'', JStr ''code''), (''isActive'', JBool False)])"
    by code_simp
  show ?thesis
    by (rule add_deduplicates [of ?c "''foo''" ?e "Some ''elsewhere''",
          THEN conjunct1, THEN spec, THEN mp, OF marker])
qed

lemma add_try_events:
  "\<exists>rest. events (fst (add_try e c pluginName url)) = events c @ Fetch (JStr url) # rest"
  by (auto simp: add_try_def emit_def Let_def split: sum.splits)

lemma internal_add_events:
  "events (fst (internal_add e c pluginName None)) = events c
   \<or> (\<exists>rest. events (fst (internal_add e c pluginName None))
               = events c @ Fetch (JStr pluginName) # rest)"
proof (cases "pluginName = []")
  case True
  then show ?thesis by (simp add: internal_add_def)
next
  case False
  obtain c1 r where t: "add_try e c pluginName pluginName = (c1, r)"
    by (cases "add_try e c pluginName pluginName")
  from add_try_events [of e c pluginName pluginName] t
  obtain rest where ev: "events c1 = events c @ Fetch (JStr pluginName) # rest"
    by auto
  show ?thesis
    using False t ev
    by (cases r) (simp_all add: internal_add_def updateState_def emit_def Let_def)
qed

text \<open>
  Claim C10. \<^verbatim>\<open>add(pluginName, sourceUrl)\<close> is \<^verbatim>\<open>add(pluginName)\<close>, for every
  \<^verbatim>\<open>sourceUrl\<close>: the same controller and the same promise. When it calls a
  collaborator at all, the first call is the fetch of the plugin name itself.
\<close>

theorem add_ignores_sourceUrl:
  "add e c pluginName sourceUrl = add e c pluginName None
   \<and> (events (fst (add e c pluginName sourceUrl)) = events c
      \<or> (\<exists>rest. events (fst (add e c pluginName sourceUrl))
                  = events c @ Fetch (JStr pluginName) # rest))"
proof
  show "add e c pluginName sourceUrl = add e c pluginName None"
    by (simp add: add_def)
next
  show "events (fst (add e c pluginName sourceUrl)) = events c
      \<or> (\<exists>rest. events (fst (add e c pluginName sourceUrl))
                  = events c @ Fetch (JStr pluginName) # rest)"
    using internal_add_events [of e c pluginName]
    by (auto simp: add_def split: option.splits prod.splits)
qed

subsection \<open>The installation pipeline\<close>

lemma get_updatePlugin:
  "get (updatePlugin c (JStr pluginName) k v) pluginName
     = Own (AList.update k v (spread_found (lookup (plugins (store c)) pluginName)))"
  by (simp add: get_def updatePlugin_def updateState_def emit_def store_updateState_def
      lookup_update_same Let_def)

lemma startPluginInWorker_stores:
  "startPluginInWorker e c (JStr pluginName) sourceCode = (c1, Inr u)
   \<Longrightarrow> \<exists>plugin. get c1 pluginName = Own plugin"
  by (auto simp: startPluginInWorker_def startPluginInWorker_resumed_def setPluginToActive_def
      get_updatePlugin Let_def split: sum.splits)

lemma getSerializable_of_Own:
  "get c pluginName = Own plugin \<Longrightarrow> \<exists>view. getSerializable c pluginName = Some view"
  by (simp add: getSerializable_def)

lemma processRequestedPlugin_try_value:
  "processRequestedPlugin_try e c pluginName = (c1, Inr v) \<Longrightarrow> \<exists>view. v = Serializable (Some view)"
proof -
  assume a: "processRequestedPlugin_try e c pluginName = (c1, Inr v)"
  then obtain c2 src where s: "startPluginInWorker e c2 (JStr pluginName) src = (c1, Inr ())"
    and v: "v = Serializable (getSerializable c1 pluginName)"
    by (auto simp: processRequestedPlugin_try_def Let_def split: prod.splits sum.splits)
  from startPluginInWorker_stores [OF s] obtain plugin where "get c1 pluginName = Own plugin"
    by blast
  from getSerializable_of_Own [OF this] v show ?thesis by auto
qed

lemma processRequestedPlugin_resolves:
  "\<exists>c1 r. processRequestedPlugin e c pluginName = (c1, Inr r)
      \<and> ((\<exists>view. r = Serializable (Some view)) \<or> (\<exists>err. r = SerializedError err))"
proof (cases "case get c pluginName of Own plugin \<Rightarrow> truthy (property plugin ''isActive'')
              | _ \<Rightarrow> False")
  case True
  then obtain plugin where "get c pluginName = Own plugin"
    by (cases "get c pluginName") simp_all
  from getSerializable_of_Own [OF this] obtain view where "getSerializable c pluginName = Some view"
    by blast
  with True show ?thesis
    by (auto simp: processRequestedPlugin_def)
next
  case False
  obtain c1 r where t: "processRequestedPlugin_try e c pluginName = (c1, r)"
    by (cases "processRequestedPlugin_try e c pluginName")
  show ?thesis
  proof (cases r)
    case (Inl err)
    with False t show ?thesis by (simp add: processRequestedPlugin_def)
  next
    case (Inr v)
    with t processRequestedPlugin_try_value [of e c pluginName c1 v]
    obtain view where "v = Serializable (Some view)" by auto
    with False t Inr show ?thesis by (simp add: processRequestedPlugin_def)
  qed
qed



subsection \<open>Permission-gated installation\<close>

lemma spread_return_id: "r \<noteq> Serializable None \<Longrightarrow> spread_return r = r"
  by (cases r rule: spread_return.cases) simp_all

lemma installPlugins_each_permitted:
  assumes "hasPermission e origin (PLUGIN_PREFIX @ name)"
  shows "\<exists>c1 r. processRequestedPlugin e c name = (c1, Inr r)
           \<and> installPlugins_each e origin (c, result, rej) name = (c1, assign name r result, rej)"
proof -
  from processRequestedPlugin_resolves [of e c name]
  obtain c1 r where p: "processRequestedPlugin e c name = (c1, Inr r)"
    and "(\<exists>view. r = Serializable (Some view)) \<or> (\<exists>err. r = SerializedError err)"
    by blast
  then have "r \<noteq> Serializable None" by auto
  then have "spread_return r = r" by (rule spread_return_id)
  with p assms show ?thesis by (simp add: installPlugins_each_def)
qed

lemma installPlugins_each_not_permitted:
  "\<not> hasPermission e origin (PLUGIN_PREFIX @ name) \<Longrightarrow>
   installPlugins_each e origin (c, result, rej) name
     = (c, assign name (ErrorObject (ProviderUnauthorized (not_authorized_message name))) result,
        rej)"
  by (simp add: installPlugins_each_def)

lemma installPlugins_each_shape:
  "\<exists>c1 v. installPlugins_each e origin (c, result, rej) name = (c1, assign name v result, rej)"
proof (cases "hasPermission e origin (PLUGIN_PREFIX @ name)")
  case True
  from installPlugins_each_permitted [OF True, of c result rej] show ?thesis by blast
next
  case False
  from installPlugins_each_not_permitted [OF False, of c result rej] show ?thesis by blast
qed

lemma installPlugins_loop_shape:
  "''__proto__'' \<notin> set names \<Longrightarrow>
   \<exists>c1 result1. foldl (installPlugins_each e origin) (c, result, rej) names = (c1, result1, rej)
      \<and> fst ` set result1 = fst ` set result \<union> set names
      \<and> (distinct (map fst result) \<longrightarrow> distinct (map fst result1))
      \<and> (\<forall>k. k \<notin> set names \<longrightarrow> map_of result1 k = map_of result k)"
proof (induction names arbitrary: c result)
  case Nil
  then show ?case by simp
next
  case (Cons name names)
  from Cons.prems have name: "name \<noteq> ''__proto__''" and rest: "''__proto__'' \<notin> set names"
    by auto
  from installPlugins_each_shape [of e origin c result rej name] name
  obtain c1 v where step:
    "installPlugins_each e origin (c, result, rej) name = (c1, AList.update name v result, rej)"
    by (auto simp: assign_other)
  from Cons.IH [OF rest, of c1 "AList.update name v result"]
  obtain c2 result2 where
    loop: "foldl (installPlugins_each e origin) (c1, AList.update name v result, rej) names
             = (c2, result2, rej)"
    and keys: "fst ` set result2 = fst ` set (AList.update name v result) \<union> set names"
    and dist: "distinct (map fst (AList.update name v result)) \<longrightarrow> distinct (map fst result2)"
    and others: "\<forall>k. k \<notin> set names \<longrightarrow> map_of result2 k = map_of (AList.update name v result) k"
    by blast
  have "foldl (installPlugins_each e origin) (c, result, rej) (name # names) = (c2, result2, rej)"
    using step loop by simp
  moreover have "fst ` set result2 = fst ` set result \<union> set (name # names)"
    using keys by (auto simp: AList.dom_update)
  moreover have "distinct (map fst result) \<longrightarrow> distinct (map fst result2)"
    using dist by (simp add: AList.distinct_update)
  moreover have "\<forall>k. k \<notin> set (name # names) \<longrightarrow> map_of result2 k = map_of result k"
    using others by (simp add: AList.update_conv')
  ultimately show ?case by blast
qed

lemma installPlugins_as_loop:
  "foldl (installPlugins_each e origin) (c, [], None) (map fst requestedPlugins) = (c1, result, None)
   \<Longrightarrow> installPlugins e c origin requestedPlugins = (c1, Inr result)"
  by (simp add: installPlugins_def)

text \<open>
  What \<^verbatim>\<open>installPlugins\<close> does for requested plugins with distinct names, none of
  them \<^verbatim>\<open>__proto__\<close>. It resolves to a result with exactly the requested names as
  keys. For a name whose capability \<^verbatim>\<open>PLUGIN_PREFIX + name\<close> the origin does not hold,
  the entry is the unauthorized error and handling the name leaves the controller, its
  trace included, as it was. For a name whose capability the origin holds, the entry is
  what \<^verbatim>\<open>processRequestedPlugin\<close> resolves to when run on the controller left by the
  names before it, and the controller after the name is the one it leaves.
\<close>

lemma installPlugins_entries:
  assumes d: "distinct (map fst requestedPlugins)"
    and np: "''__proto__'' \<notin> fst ` set requestedPlugins"
  shows "\<exists>c1 result. installPlugins e c origin requestedPlugins = (c1, Inr result)
      \<and> distinct (map fst result)
      \<and> set (map fst result) = set (map fst requestedPlugins)
      \<and> (\<forall>pre name v post. requestedPlugins = pre @ (name, v) # post \<longrightarrow>
            (if hasPermission e origin (PLUGIN_PREFIX @ name)
             then \<exists>r. processRequestedPlugin e (fst (installPlugins e c origin pre)) name
                         = (fst (installPlugins e c origin (pre @ [(name, v)])), Inr r)
                      \<and> map_of result name = Some r
             else fst (installPlugins e c origin (pre @ [(name, v)]))
                    = fst (installPlugins e c origin pre)
                  \<and> map_of result name
                      = Some (ErrorObject (ProviderUnauthorized (not_authorized_message name)))))"
proof -
  let ?f = "installPlugins_each e origin"
  from np have np': "''__proto__'' \<notin> set (map fst requestedPlugins)" by simp
  from installPlugins_loop_shape [OF np', of e origin c "[]" None]
  obtain c1 result where
    loop: "foldl ?f (c, [], None) (map fst requestedPlugins) = (c1, result, None)"
    and keys: "fst ` set result = set (map fst requestedPlugins)"
    and dist: "distinct (map fst result)"
    by auto
  have whole: "installPlugins e c origin requestedPlugins = (c1, Inr result)"
    using loop by (rule installPlugins_as_loop)
  have each: "if hasPermission e origin (PLUGIN_PREFIX @ name)
             then \<exists>r. processRequestedPlugin e (fst (installPlugins e c origin pre)) name
                         = (fst (installPlugins e c origin (pre @ [(name, v)])), Inr r)
                      \<and> map_of result name = Some r
             else fst (installPlugins e c origin (pre @ [(name, v)]))
                    = fst (installPlugins e c origin pre)
                  \<and> map_of result name
                      = Some (ErrorObject (ProviderUnauthorized (not_authorized_message name)))"
    if split: "requestedPlugins = pre @ (name, v) # post" for pre name v post
  proof -
    from d split have fresh_name: "name \<notin> set (map fst post)" by auto
    from np split have name: "name \<noteq> ''__proto__''"
      and np_pre: "''__proto__'' \<notin> set (map fst pre)"
      and np_post: "''__proto__'' \<notin> set (map fst post)"
      by auto
    from installPlugins_loop_shape [OF np_pre, of e origin c "[]" None]
    obtain ck resk where pre: "foldl ?f (c, [], None) (map fst pre) = (ck, resk, None)"
      by auto
    then have ipre: "installPlugins e c origin pre = (ck, Inr resk)"
      by (rule installPlugins_as_loop)
    from installPlugins_each_shape [of e origin ck resk None name] name
    obtain ck' entry where step: "?f (ck, resk, None) name = (ck', AList.update name entry resk, None)"
      by (auto simp: assign_other)
    have "foldl ?f (c, [], None) (map fst (pre @ [(name, v)]))
            = (ck', AList.update name entry resk, None)"
      using pre step by simp
    then have istep: "installPlugins e c origin (pre @ [(name, v)])
                        = (ck', Inr (AList.update name entry resk))"
      by (rule installPlugins_as_loop)
    from installPlugins_loop_shape [OF np_post, of e origin ck' "AList.update name entry resk" None]
    obtain c2 result2 where
      rest: "foldl ?f (ck', AList.update name entry resk, None) (map fst post) = (c2, result2, None)"
      and others: "\<forall>k. k \<notin> set (map fst post) \<longrightarrow>
                     map_of result2 k = map_of (AList.update name entry resk) k"
      by blast
    have "foldl ?f (c, [], None) (map fst requestedPlugins) = (c2, result2, None)"
      using pre step rest split by simp
    with loop have "result2 = result" by simp
    with others fresh_name have found: "map_of result name = Some entry"
      by (simp add: AList.update_conv')
    show ?thesis
    proof (cases "hasPermission e origin (PLUGIN_PREFIX @ name)")
      case True
      from installPlugins_each_permitted [OF True, of ck resk None] name
      obtain c1' r where p: "processRequestedPlugin e ck name = (c1', Inr r)"
        and s: "?f (ck, resk, None) name = (c1', AList.update name r resk, None)"
        by (auto simp: assign_other)
      from s step have "c1' = ck'" and "AList.update name r resk = AList.update name entry resk"
        by simp_all
      then have "r = entry" by (auto dest: AList.update_eqD)
      with p \<open>c1' = ck'\<close> found True ipre istep show ?thesis by simp
    next
      case False
      from installPlugins_each_not_permitted [OF False, of ck resk None] step name
      have "ck' = ck" and
        "AList.update name (ErrorObject (ProviderUnauthorized (not_authorized_message name))) resk
           = AList.update name entry resk"
        by (simp_all add: assign_other)
      then have "entry = ErrorObject (ProviderUnauthorized (not_authorized_message name))"
        by (auto dest: AList.update_eqD)
      with \<open>ck' = ck\<close> found False ipre istep show ?thesis by simp
    qed
  qed
  have keys': "set (map fst result) = set (map fst requestedPlugins)"
    using keys by simp
  have all_each: "\<forall>pre name v post. requestedPlugins = pre @ (name, v) # post \<longrightarrow>
            (if hasPermission e origin (PLUGIN_PREFIX @ name)
             then \<exists>r. processRequestedPlugin e (fst (installPlugins e c origin pre)) name
                         = (fst (installPlugins e c origin (pre @ [(name, v)])), Inr r)
                      \<and> map_of result name = Some r
             else fst (installPlugins e c origin (pre @ [(name, v)]))
                    = fst (installPlugins e c origin pre)
                  \<and> map_of result name
                      = Some (ErrorObject (ProviderUnauthorized (not_authorized_message name))))"
    by (intro allI impI) (rule each)
  from whole dist keys' all_each show ?thesis
    by (intro exI conjI)
qed

text \<open>
  Claim C7 does not hold of the code for the requested name \<^verbatim>\<open>__proto__\<close>, which an
  object parsed from JSON can have as an own key. The assignment
  \<^verbatim>\<open>result[pluginName] = ...\<close> then adds no entry. For an origin without the
  capability the result is the empty object, with no unauthorized error in it; next to
  the name \<open>foo\<close> the result has the entry of \<open>foo\<close> alone; and for an origin that
  holds the capability the plugin is installed and started, and the result is empty
  all the same.
\<close>

theorem installPlugins_proto_has_no_entry:
  "snd (installPlugins (example_env (JObj []) []) fresh ''dapp'' [(''__proto__'', JObj [])])
     = Inr []
   \<and> (case snd (installPlugins (example_env (JObj []) []) fresh ''dapp''
                   [(''foo'', JObj []), (''__proto__'', JObj [])]) of
        Inr result \<Rightarrow> map fst result = [''foo'']
      | Inl err \<Rightarrow> False)
   \<and> (let installed = installPlugins (example_env (JObj []) []) fresh ''admin''
                         [(''__proto__'', JObj [])]
      in snd installed = Inr []
         \<and> get (fst installed) ''__proto__'' = Own (stored_plugin ''__proto__'' True)
         \<and> getRpcMessageHandler (fst installed) ''__proto__'' = Some ''worker-__proto__'')"
  by code_simp

subsection \<open>What a failed or skipped step leaves behind\<close>

text \<open>
  Claim C3 does not hold of the code. In a world where the manifest requests no
  permissions, \<^verbatim>\<open>add\<close> stores the promise for \<open>foo\<close>, and \<^verbatim>\<open>authorize\<close> resolves
  to the empty list through the return that precedes its \<^verbatim>\<open>try\<close> statement: the
  promise is still stored afterwards, and a further \<^verbatim>\<open>add\<close> calls no collaborator.
  After a full installation and the removal of \<open>foo\<close>, a new
  \<^verbatim>\<open>processRequestedPlugin\<close> therefore stores nothing and resolves to an error.
\<close>

theorem authorize_early_return_keeps_marker:
  "(let e = example_env (JObj []) [];
        c1 = fst (add e fresh ''foo'' None);
        (c2, approved) = authorize e c1 ''foo''
    in approved = Inr []
       \<and> map_of (pluginsBeingAdded c1) ''foo'' = Some (Inr (stored_plugin ''foo'' False))
       \<and> map_of (pluginsBeingAdded c2) ''foo'' = Some (Inr (stored_plugin ''foo'' False))
       \<and> events (fst (add e c2 ''foo'' None)) = events c2)
   \<and> (let e = example_env (JObj []) [];
           c3 = removePlugin (fst (processRequestedPlugin e fresh ''foo'')) (JStr ''foo'');
           (c4, r) = processRequestedPlugin e c3 ''foo''
       in get c4 ''foo'' = Absent
          \<and> r = Inr (SerializedError
                 (TypeError ''Cannot destructure property initialPermissions of undefined'')))"
  by code_simp

text \<open>
  Claim C4 does not hold of the code. In a world where the start command for \<open>foo\<close>
  fails, \<^verbatim>\<open>processRequestedPlugin\<close> resolves to the serialised error, and afterwards
  the plugin that \<^verbatim>\<open>add\<close> stored is still in the store, inactive, and the RPC hook
  registered before the start command is still registered.
\<close>

theorem processRequestedPlugin_start_failure_leaves_plugin:
  "(let e = example_env (JObj []) [''foo''];
        (c1, r) = processRequestedPlugin e fresh ''foo''
    in r = Inr (SerializedError (Error ''start failed''))
       \<and> get c1 ''foo'' = Own (stored_plugin ''foo'' False)
       \<and> getRpcMessageHandler c1 ''foo'' = Some ''worker-foo'')"
  by code_simp

text \<open>
  Claim C5 does not hold of the code. With the plugins \<open>a\<close> and \<open>b\<close> in the initial
  state and a world where the start command for \<open>b\<close> fails, \<^verbatim>\<open>runExistingPlugins\<close>
  activates \<open>a\<close>, but \<open>b\<close> stays in the store with its RPC hook registered: the
  rejection of the promise that is not awaited never reaches the handler that would
  remove the plugin, and no collaborator is called for the removal.
\<close>

theorem runExistingPlugins_start_failure_leaves_plugin:
  "(let e = example_env (JObj []) [''b''];
        c = constructor \<lparr>new_plugins = Some [(''a'', stored_plugin ''a'' False),
                                             (''b'', stored_plugin ''b'' False)],
                         new_pluginStates = None\<rparr>;
        c1 = runExistingPlugins e c
    in get c1 ''a'' = Own (stored_plugin ''a'' True)
       \<and> get c1 ''b'' = Own (stored_plugin ''b'' False)
       \<and> getRpcMessageHandler c1 ''b'' = Some ''worker-b''
       \<and> CloseAllConnections (JStr ''b'') \<notin> set (events c1)
       \<and> TerminateWorkerOf (JStr ''b'') \<notin> set (events c1)
       \<and> RemoveAllPermissionsFor [JStr ''b''] \<notin> set (events c1))"
  by code_simp

end
